theory Spec2Isabelle
  imports Main "HOL-Library.Word" "HOL-Library.Sublist"
begin

unbundle bit_operations_syntax

section \<open>Common types (util.h)\<close>

text \<open>
  Fixed-width C integers are words: \<open>uint32_t\<close> is \<open>32 word\<close>, \<open>uint64_t\<close> and
  \<open>size_t\<close> (x86-64 Linux, the only target of the driver interface) are \<open>64 word\<close>.
  \<open>int32_t\<close> return codes are \<open>32 word\<close> too, read as two's complement by \<open>sint\<close>
  where the source tests the sign.
\<close>

type_synonym u32 = "32 word"
type_synonym u64 = "64 word"
type_synonym i32 = "32 word"

text \<open>
  \<open>HDB_ASSERT(cond, msg)\<close> prints \<open>msg\<close> and calls \<open>abort()\<close> when \<open>cond\<close> is false.
  The abort is the value \<open>Inl (FATAL msg)\<close>; the code after the macro is the
  continuation \<open>k\<close>.
\<close>

datatype fault = FATAL string

type_synonym 'a result = "fault + 'a"

definition HDB_ASSERT :: "bool \<Rightarrow> string \<Rightarrow> 'a result \<Rightarrow> 'a result" where
  "HDB_ASSERT cond msg k = (if cond then k else Inl (FATAL msg))"

text \<open>Sequencing of two steps, the first of which may abort.\<close>

definition and_then :: "'a result \<Rightarrow> ('a \<Rightarrow> 'b result) \<Rightarrow> 'b result" where
  "and_then r f = (case r of Inl e \<Rightarrow> Inl e | Inr x \<Rightarrow> f x)"

definition PAGE_SIZE :: u64 where
  "PAGE_SIZE = 4096"

text \<open>
  \<open>ALIGN_UP(value, alignment) = ((value + alignment - 1) & ~(alignment - 1))\<close>, evaluated
  in \<open>size_t\<close>: the addition wraps modulo \<open>2 ^ 64\<close>.
\<close>

definition ALIGN_UP :: "u64 \<Rightarrow> u64 \<Rightarrow> u64" where
  "ALIGN_UP v alignment = (v + alignment - 1) AND NOT (alignment - 1)"

section \<open>Packet stream (bo.h)\<close>

text \<open>
  \<open>pkt3_packets_t\<close>: \<open>data\<close> is the heap block behind the pointer (the empty list for
  \<open>NULL\<close>), \<open>count\<close> the number of dwords written, \<open>capacity\<close> the number of dwords
  the block holds. The words of the stream are the first \<open>count\<close> cells of \<open>data\<close>.
  \<open>count\<close> and \<open>capacity\<close> are natural numbers: a block of \<open>2 ^ 61\<close> dwords cannot
  exist, so \<open>size_t\<close> never wraps here.
\<close>

record pkt3_packets_t =
  data :: "u32 list"
  count :: nat
  capacity :: nat

definition pkt3_init :: pkt3_packets_t where
  "pkt3_init = \<lparr>data = [], count = 0, capacity = 0\<rparr>"

definition words :: "pkt3_packets_t \<Rightarrow> u32 list" where
  "words packets = take (count packets) (data packets)"

text \<open>
  \<open>realloc(p, n)\<close> on success: a block of \<open>n\<close> cells that keeps the old contents. The
  cells beyond the old block are indeterminate in C; the model fills them with 0 and no
  statement below reads them.
\<close>

definition realloc :: "u32 list \<Rightarrow> nat \<Rightarrow> u32 list" where
  "realloc block n = take n (block @ replicate n 0)"

text \<open>
  \<open>da_append\<close>. Whether \<open>realloc\<close> succeeds is decided by the allocator, the
  parameter \<open>mem\<close> (\<open>mem n\<close>: a request for \<open>n\<close> dwords is granted); a refused request
  trips the \<open>HDB_ASSERT\<close> on the returned pointer.
\<close>

definition da_append :: "(nat \<Rightarrow> bool) \<Rightarrow> pkt3_packets_t \<Rightarrow> u32 \<Rightarrow> pkt3_packets_t result" where
  "da_append mem packets v =
     and_then
       (if count packets \<ge> capacity packets then
          (let new_cap = (if capacity packets = 0 then 64 else capacity packets * 2) in
           HDB_ASSERT (mem new_cap) ''realloc failed for packet array''
             (Inr (packets\<lparr>data := realloc (data packets) new_cap, capacity := new_cap\<rparr>)))
        else Inr packets)
       (\<lambda>p. Inr (p\<lparr>data := (data p)[count p := v], count := count p + 1\<rparr>))"

text \<open>The statement sequence \<open>da_append(p, v1); ...; da_append(p, vn);\<close>.\<close>

fun da_appends :: "(nat \<Rightarrow> bool) \<Rightarrow> u32 list \<Rightarrow> pkt3_packets_t \<Rightarrow> pkt3_packets_t result" where
  "da_appends mem [] packets = Inr packets"
| "da_appends mem (v # vs) packets = and_then (da_append mem packets v) (da_appends mem vs)"

text \<open>
  The streams that \<open>pkt3_init\<close> and \<open>da_append\<close> produce: the block holds
  \<open>capacity\<close> cells and \<open>count\<close> does not exceed it.
\<close>

definition wf_packets :: "pkt3_packets_t \<Rightarrow> bool" where
  "wf_packets packets \<longleftrightarrow>
     length (data packets) = capacity packets \<and> count packets \<le> capacity packets"

section \<open>PM4 type-3 packets (pm4.h, pm4.c)\<close>

text \<open>
  \<open>PKT3(op, count, predicate) =
     ((3 << 30) | (((op) & 0xFF) << 8) | ((count) & 0x3FFF) | ((predicate) << 31))\<close>,
  stored into a \<open>uint32_t\<close>, hence computed on 32-bit words.
\<close>

definition PKT3 :: "u32 \<Rightarrow> u32 \<Rightarrow> u32 \<Rightarrow> u32" where
  "PKT3 op cnt predicate =
     push_bit 30 3 OR push_bit 8 (op AND 0xFF) OR (cnt AND 0x3FFF) OR push_bit 31 predicate"

definition PKT3_SHADER_TYPE_S :: "u32 \<Rightarrow> u32" where
  "PKT3_SHADER_TYPE_S shader_type = push_bit 1 (shader_type AND 0x1)"

definition PKT3_DISPATCH_DIRECT :: u32 where "PKT3_DISPATCH_DIRECT = 0x15"
definition PKT3_ACQUIRE_MEM :: u32 where "PKT3_ACQUIRE_MEM = 0x58"
definition PKT3_SET_SH_REG :: u32 where "PKT3_SET_SH_REG = 0x76"
definition PKT3_RELEASE_MEM :: u32 where "PKT3_RELEASE_MEM = 0x49"

definition SI_SH_REG_OFFSET :: u32 where "SI_SH_REG_OFFSET = 0x2C00"
definition SI_SH_REG_END :: u32 where "SI_SH_REG_END = 0x3000"

definition R_00B848_COMPUTE_PGM_RSRC1 :: u32 where "R_00B848_COMPUTE_PGM_RSRC1 = 0xB848"
definition R_00B84C_COMPUTE_PGM_RSRC2 :: u32 where "R_00B84C_COMPUTE_PGM_RSRC2 = 0xB84C"
definition R_00B8A0_COMPUTE_PGM_RSRC3 :: u32 where "R_00B8A0_COMPUTE_PGM_RSRC3 = 0xB8A0"
definition R_00B830_COMPUTE_PGM_LO :: u32 where "R_00B830_COMPUTE_PGM_LO = 0xB830"
definition R_00B834_COMPUTE_PGM_HI :: u32 where "R_00B834_COMPUTE_PGM_HI = 0xB834"
definition R_00B81C_COMPUTE_NUM_THREAD_X :: u32 where "R_00B81C_COMPUTE_NUM_THREAD_X = 0xB81C"
definition R_00B820_COMPUTE_NUM_THREAD_Y :: u32 where "R_00B820_COMPUTE_NUM_THREAD_Y = 0xB820"
definition R_00B824_COMPUTE_NUM_THREAD_Z :: u32 where "R_00B824_COMPUTE_NUM_THREAD_Z = 0xB824"

definition COMPUTE_DISPATCH_INITIATOR_COMPUTE_SHADER_EN :: u32 where
  "COMPUTE_DISPATCH_INITIATOR_COMPUTE_SHADER_EN = push_bit 0 1"
definition COMPUTE_DISPATCH_INITIATOR_FORCE_START_AT_000 :: u32 where
  "COMPUTE_DISPATCH_INITIATOR_FORCE_START_AT_000 = push_bit 1 1"

definition pkt3_set_sh_reg ::
  "(nat \<Rightarrow> bool) \<Rightarrow> pkt3_packets_t \<Rightarrow> u32 \<Rightarrow> u32 \<Rightarrow> pkt3_packets_t result" where
  "pkt3_set_sh_reg mem packets reg v =
     HDB_ASSERT (reg \<ge> SI_SH_REG_OFFSET \<and> reg < SI_SH_REG_END)
       ''register offset outside SH register range''
       (da_appends mem
          [PKT3 PKT3_SET_SH_REG 1 0,
           (reg - SI_SH_REG_OFFSET) div 4,
           v] packets)"

definition pkt3_dispatch_direct ::
  "(nat \<Rightarrow> bool) \<Rightarrow> pkt3_packets_t \<Rightarrow> u32 \<Rightarrow> u32 \<Rightarrow> u32 \<Rightarrow> u32 \<Rightarrow> pkt3_packets_t result" where
  "pkt3_dispatch_direct mem packets dim_x dim_y dim_z dispatch_initiator =
     da_appends mem
       [PKT3 PKT3_DISPATCH_DIRECT 3 0 OR PKT3_SHADER_TYPE_S 1,
        dim_x, dim_y, dim_z,
        dispatch_initiator] packets"

definition pkt3_acquire_mem :: "(nat \<Rightarrow> bool) \<Rightarrow> pkt3_packets_t \<Rightarrow> pkt3_packets_t result" where
  "pkt3_acquire_mem mem packets =
     (let cp_coher_cntl = push_bit 0 1 OR push_bit 1 1 OR push_bit 3 1 OR push_bit 4 1 in
      da_appends mem
        [PKT3 PKT3_ACQUIRE_MEM 5 0,
         cp_coher_cntl,
         0xFFFFFFFF,
         0xFF,
         0,
         0,
         0] packets)"

definition pkt3_release_mem ::
  "(nat \<Rightarrow> bool) \<Rightarrow> pkt3_packets_t \<Rightarrow> u64 \<Rightarrow> u32 \<Rightarrow> pkt3_packets_t result" where
  "pkt3_release_mem mem packets va fence_value =
     (let event_cntl = push_bit 0 0x5 OR push_bit 8 0x2E;
          data_sel = 1 in
      da_appends mem
        [PKT3 PKT3_RELEASE_MEM 6 0,
         event_cntl,
         data_sel,
         ucast (va AND 0xFFFFFFFF),
         ucast (drop_bit 32 va),
         fence_value,
         0,
         0] packets)"

definition build_compute_dispatch ::
  "(nat \<Rightarrow> bool) \<Rightarrow> pkt3_packets_t \<Rightarrow> u64 \<Rightarrow> u32 \<Rightarrow> u32 \<Rightarrow> u32 \<Rightarrow> u32 \<Rightarrow> u32 \<Rightarrow> u32
     \<Rightarrow> u32 \<Rightarrow> u32 \<Rightarrow> u32 \<Rightarrow> pkt3_packets_t result" where
  "build_compute_dispatch mem packets code_va rsrc1 rsrc2 rsrc3
       threads_x threads_y threads_z groups_x groups_y groups_z =
     HDB_ASSERT (code_va AND 0xFF = 0) ''shader code address must be 256-byte aligned''
       (and_then (pkt3_acquire_mem mem packets) (\<lambda>p.
        let pgm_lo = ucast (drop_bit 8 code_va);
            pgm_hi = ucast (drop_bit 40 code_va) in
        and_then (pkt3_set_sh_reg mem p R_00B830_COMPUTE_PGM_LO pgm_lo) (\<lambda>p.
        and_then (pkt3_set_sh_reg mem p R_00B834_COMPUTE_PGM_HI pgm_hi) (\<lambda>p.
        and_then (pkt3_set_sh_reg mem p R_00B848_COMPUTE_PGM_RSRC1 rsrc1) (\<lambda>p.
        and_then (pkt3_set_sh_reg mem p R_00B84C_COMPUTE_PGM_RSRC2 rsrc2) (\<lambda>p.
        and_then (pkt3_set_sh_reg mem p R_00B8A0_COMPUTE_PGM_RSRC3 rsrc3) (\<lambda>p.
        and_then (pkt3_set_sh_reg mem p R_00B81C_COMPUTE_NUM_THREAD_X threads_x) (\<lambda>p.
        and_then (pkt3_set_sh_reg mem p R_00B820_COMPUTE_NUM_THREAD_Y threads_y) (\<lambda>p.
        and_then (pkt3_set_sh_reg mem p R_00B824_COMPUTE_NUM_THREAD_Z threads_z) (\<lambda>p.
        let dispatch_initiator =
              COMPUTE_DISPATCH_INITIATOR_COMPUTE_SHADER_EN OR
              COMPUTE_DISPATCH_INITIATOR_FORCE_START_AT_000 in
        pkt3_dispatch_direct mem p groups_x groups_y groups_z dispatch_initiator))))))))))"

section \<open>Buffer objects (bo.h, bo.c)\<close>

text \<open>
  Constants of the kernel interface header \<open>amdgpu_drm.h\<close>, which \<open>bo.h\<close> includes:
  memory domains, buffer creation flags, VA mapping flags and VA operations.
\<close>

definition AMDGPU_GEM_DOMAIN_GTT :: u32 where "AMDGPU_GEM_DOMAIN_GTT = 0x2"
definition AMDGPU_GEM_DOMAIN_VRAM :: u32 where "AMDGPU_GEM_DOMAIN_VRAM = 0x4"
definition AMDGPU_GEM_DOMAIN_GDS :: u32 where "AMDGPU_GEM_DOMAIN_GDS = 0x8"
definition AMDGPU_GEM_DOMAIN_GWS :: u32 where "AMDGPU_GEM_DOMAIN_GWS = 0x10"
definition AMDGPU_GEM_DOMAIN_OA :: u32 where "AMDGPU_GEM_DOMAIN_OA = 0x20"

definition AMDGPU_GEM_CREATE_CPU_ACCESS_REQUIRED :: u32 where
  "AMDGPU_GEM_CREATE_CPU_ACCESS_REQUIRED = push_bit 0 1"
definition AMDGPU_GEM_CREATE_NO_CPU_ACCESS :: u32 where
  "AMDGPU_GEM_CREATE_NO_CPU_ACCESS = push_bit 1 1"
definition AMDGPU_GEM_CREATE_CPU_GTT_USWC :: u32 where
  "AMDGPU_GEM_CREATE_CPU_GTT_USWC = push_bit 2 1"
definition AMDGPU_GEM_CREATE_VRAM_CLEARED :: u32 where
  "AMDGPU_GEM_CREATE_VRAM_CLEARED = push_bit 3 1"
definition AMDGPU_GEM_CREATE_VM_ALWAYS_VALID :: u32 where
  "AMDGPU_GEM_CREATE_VM_ALWAYS_VALID = push_bit 6 1"

definition AMDGPU_VM_PAGE_READABLE :: u64 where "AMDGPU_VM_PAGE_READABLE = push_bit 1 1"
definition AMDGPU_VM_PAGE_WRITEABLE :: u64 where "AMDGPU_VM_PAGE_WRITEABLE = push_bit 2 1"
definition AMDGPU_VM_PAGE_EXECUTABLE :: u64 where "AMDGPU_VM_PAGE_EXECUTABLE = push_bit 3 1"
definition AMDGPU_VM_MTYPE_UC :: u64 where "AMDGPU_VM_MTYPE_UC = push_bit 5 4"
definition AMDGPU_VM_PAGE_NOALLOC :: u64 where "AMDGPU_VM_PAGE_NOALLOC = push_bit 9 1"

definition AMDGPU_VA_OP_MAP :: u32 where "AMDGPU_VA_OP_MAP = 1"
definition AMDGPU_VA_OP_UNMAP :: u32 where "AMDGPU_VA_OP_UNMAP = 2"

text \<open>
  \<open>amdgpu_bo_t\<close>. Handles and pointers are 64-bit values, \<open>NULL\<close> is 0. The field
  \<open>size\<close> of the source is \<open>bo_size\<close> here.
\<close>

record amdgpu_bo_t =
  bo_handle :: u64
  va_handle :: u64
  va_addr :: u64
  host_addr :: u64
  bo_size :: u64
  kms_handle :: u32

text \<open>\<open>struct drm_amdgpu_gem_va\<close>, the argument of the VA map and unmap ioctl.\<close>

record drm_amdgpu_gem_va =
  gem_handle :: u32
  operation :: u32
  gem_flags :: u32
  va_address :: u64
  offset_in_bo :: u64
  map_size :: u64

text \<open>
  The calls into libdrm and the kernel, each with what it returned: the return code
  and the values written through its output pointers. A run of \<open>bo_alloc\<close> or
  \<open>bo_free\<close> yields the list of calls it made, in order.
\<close>

datatype drm_call =
    amdgpu_bo_alloc u64 u64 u32 u64 i32 u64
  | amdgpu_bo_export u64 i32 u32
  | amdgpu_va_range_alloc u64 u64 i32 u64 u64
  | DRM_IOCTL_AMDGPU_GEM_VA drm_amdgpu_gem_va i32
  | amdgpu_bo_cpu_map u64 i32 u64
  | memset u64 u64
  | amdgpu_bo_cpu_unmap u64
  | amdgpu_va_range_free u64
  | amdgpu_bo_free u64

text \<open>
  What the driver answers, one field per call and output: the model is a function of
  these answers, so a statement for every \<open>drm_env\<close> covers every behaviour of the
  driver. The ioctl answers are the raw return value of \<open>ioctl\<close> and \<open>errno\<close>.
\<close>

record drm_env =
  bo_alloc_ret :: i32
  bo_alloc_out :: u64
  bo_export_ret :: i32
  bo_export_out :: u32
  va_range_ret :: i32
  va_range_addr :: u64
  va_range_handle :: u64
  map_ioctl_ret :: i32
  map_errno :: i32
  cpu_map_ret :: i32
  cpu_map_out :: u64
  unmap_ioctl_ret :: i32
  unmap_errno :: i32

definition drm_ioctl_write_read :: "i32 \<Rightarrow> i32 \<Rightarrow> i32" where
  "drm_ioctl_write_read ioctl_ret errno = (if sint ioctl_ret < 0 then - errno else 0)"

definition special_domain :: "u32 \<Rightarrow> bool" where
  "special_domain domain \<longleftrightarrow>
     \<not> (domain \<noteq> AMDGPU_GEM_DOMAIN_GWS \<and>
        domain \<noteq> AMDGPU_GEM_DOMAIN_GDS \<and>
        domain \<noteq> AMDGPU_GEM_DOMAIN_OA)"

text \<open>
  \<open>bo_alloc\<close>: the result is the return code, the caller's \<open>*bo\<close> as the function
  leaves it, and the calls made.
\<close>

definition bo_alloc ::
  "drm_env \<Rightarrow> u64 \<Rightarrow> u32 \<Rightarrow> bool \<Rightarrow> amdgpu_bo_t \<Rightarrow> i32 \<times> amdgpu_bo_t \<times> drm_call list" where
  "bo_alloc env sz domain uncached bo =
     (let actual_size = (if \<not> special_domain domain then ALIGN_UP sz PAGE_SIZE else sz);
          alignment = (if \<not> special_domain domain then ucast PAGE_SIZE else 1) :: u32;
          flags =
            (if \<not> special_domain domain then
               (AMDGPU_GEM_CREATE_CPU_ACCESS_REQUIRED OR
                AMDGPU_GEM_CREATE_VRAM_CLEARED OR
                AMDGPU_GEM_CREATE_VM_ALWAYS_VALID) OR
               (if uncached \<and> domain = AMDGPU_GEM_DOMAIN_GTT
                then AMDGPU_GEM_CREATE_CPU_GTT_USWC else 0)
             else AMDGPU_GEM_CREATE_NO_CPU_ACCESS);
          c_alloc = amdgpu_bo_alloc actual_size (ucast alignment) domain (ucast flags)
                      (bo_alloc_ret env) (bo_alloc_out env);
          h = bo_alloc_out env
      in
      if bo_alloc_ret env \<noteq> 0 then (bo_alloc_ret env, bo, [c_alloc])
      else
      let c_export = amdgpu_bo_export h (bo_export_ret env) (bo_export_out env);
          kms = bo_export_out env
      in
      if bo_export_ret env \<noteq> 0 then
        (bo_export_ret env, bo, [c_alloc, c_export, amdgpu_bo_free h])
      else
      let c_range = amdgpu_va_range_alloc actual_size PAGE_SIZE
                      (va_range_ret env) (va_range_addr env) (va_range_handle env);
          va = va_range_addr env;
          vh = va_range_handle env
      in
      if va_range_ret env \<noteq> 0 then
        (va_range_ret env, bo, [c_alloc, c_export, c_range, amdgpu_bo_free h])
      else
      let map_flags =
            (AMDGPU_VM_PAGE_EXECUTABLE OR AMDGPU_VM_PAGE_READABLE OR AMDGPU_VM_PAGE_WRITEABLE) OR
            (if uncached then AMDGPU_VM_MTYPE_UC OR AMDGPU_VM_PAGE_NOALLOC else 0);
          gem_va = \<lparr>gem_handle = kms, operation = AMDGPU_VA_OP_MAP, gem_flags = ucast map_flags,
                    va_address = va, offset_in_bo = 0, map_size = actual_size\<rparr>;
          map_ret = drm_ioctl_write_read (map_ioctl_ret env) (map_errno env);
          c_map = DRM_IOCTL_AMDGPU_GEM_VA gem_va map_ret
      in
      if map_ret \<noteq> 0 then
        (map_ret, bo,
         [c_alloc, c_export, c_range, c_map, amdgpu_va_range_free vh, amdgpu_bo_free h])
      else
      if flags AND AMDGPU_GEM_CREATE_CPU_ACCESS_REQUIRED \<noteq> 0 then
        (let c_cpu = amdgpu_bo_cpu_map h (cpu_map_ret env) (cpu_map_out env);
             host = cpu_map_out env
         in
         if cpu_map_ret env \<noteq> 0 then
           (cpu_map_ret env, bo,
            [c_alloc, c_export, c_range, c_map, c_cpu,
             DRM_IOCTL_AMDGPU_GEM_VA (gem_va\<lparr>operation := AMDGPU_VA_OP_UNMAP\<rparr>)
               (drm_ioctl_write_read (unmap_ioctl_ret env) (unmap_errno env)),
             amdgpu_va_range_free vh, amdgpu_bo_free h])
         else
           (0,
            \<lparr>bo_handle = h, va_handle = vh, va_addr = va, host_addr = host,
             bo_size = actual_size, kms_handle = kms\<rparr>,
            [c_alloc, c_export, c_range, c_map, c_cpu, memset host actual_size]))
      else
        (0,
         \<lparr>bo_handle = h, va_handle = vh, va_addr = va, host_addr = 0,
          bo_size = actual_size, kms_handle = kms\<rparr>,
         [c_alloc, c_export, c_range, c_map]))"

text \<open>\<open>bo_free\<close>: the caller's \<open>*bo\<close> as the function leaves it, and the calls made.\<close>

definition bo_free :: "drm_env \<Rightarrow> amdgpu_bo_t \<Rightarrow> amdgpu_bo_t \<times> drm_call list" where
  "bo_free env bo =
     (if bo_handle bo = 0 then (bo, [])
      else
      let (bo1, calls1) =
            (if host_addr bo \<noteq> 0
             then (bo\<lparr>host_addr := 0\<rparr>, [amdgpu_bo_cpu_unmap (bo_handle bo)])
             else (bo, []));
          (bo2, calls2) =
            (if va_handle bo1 \<noteq> 0
             then (bo1\<lparr>va_handle := 0\<rparr>,
                   [DRM_IOCTL_AMDGPU_GEM_VA
                      \<lparr>gem_handle = kms_handle bo1, operation = AMDGPU_VA_OP_UNMAP,
                       gem_flags = 0, va_address = va_addr bo1, offset_in_bo = 0,
                       map_size = bo_size bo1\<rparr>
                      (drm_ioctl_write_read (unmap_ioctl_ret env) (unmap_errno env)),
                    amdgpu_va_range_free (va_handle bo1)])
             else (bo1, []))
      in (bo2\<lparr>bo_handle := 0\<rparr>, calls1 @ calls2 @ [amdgpu_bo_free (bo_handle bo2)]))"




section \<open>Privileged register access (regs.h, regs.c)\<close>



datatype reg_type_t = REG_MMIO | REG_INDIRECT
















section \<open>Inputs for the concrete runs\<close>

text \<open>A driver that grants every request of \<open>bo_alloc\<close> and \<open>bo_free\<close>.\<close>

definition drm_ok :: drm_env where
  "drm_ok =
     \<lparr>bo_alloc_ret = 0, bo_alloc_out = 0x5000, bo_export_ret = 0, bo_export_out = 7,
      va_range_ret = 0, va_range_addr = 0x100000, va_range_handle = 0x6000,
      map_ioctl_ret = 0, map_errno = 0, cpu_map_ret = 0, cpu_map_out = 0x7F0000000000,
      unmap_ioctl_ret = 0, unmap_errno = 0\<rparr>"

text \<open>The caller's region before allocation, \<open>amdgpu_bo_t bo = {0}\<close>.\<close>

definition bo_zero :: amdgpu_bo_t where
  "bo_zero =
     \<lparr>bo_handle = 0, va_handle = 0, va_addr = 0, host_addr = 0, bo_size = 0, kms_handle = 0\<rparr>"



section \<open>Reading a list of register-file calls\<close>








section \<open>Properties of the packet encoder\<close>

lemmas pm4_consts =
  PKT3_DISPATCH_DIRECT_def PKT3_ACQUIRE_MEM_def PKT3_SET_SH_REG_def PKT3_RELEASE_MEM_def
  SI_SH_REG_OFFSET_def SI_SH_REG_END_def
  R_00B848_COMPUTE_PGM_RSRC1_def R_00B84C_COMPUTE_PGM_RSRC2_def R_00B8A0_COMPUTE_PGM_RSRC3_def
  R_00B830_COMPUTE_PGM_LO_def R_00B834_COMPUTE_PGM_HI_def
  R_00B81C_COMPUTE_NUM_THREAD_X_def R_00B820_COMPUTE_NUM_THREAD_Y_def
  R_00B824_COMPUTE_NUM_THREAD_Z_def
  COMPUTE_DISPATCH_INITIATOR_COMPUTE_SHADER_EN_def
  COMPUTE_DISPATCH_INITIATOR_FORCE_START_AT_000_def

lemmas drm_consts =
  AMDGPU_GEM_DOMAIN_GTT_def AMDGPU_GEM_DOMAIN_VRAM_def AMDGPU_GEM_DOMAIN_GDS_def
  AMDGPU_GEM_DOMAIN_GWS_def AMDGPU_GEM_DOMAIN_OA_def
  AMDGPU_GEM_CREATE_CPU_ACCESS_REQUIRED_def AMDGPU_GEM_CREATE_NO_CPU_ACCESS_def
  AMDGPU_GEM_CREATE_CPU_GTT_USWC_def AMDGPU_GEM_CREATE_VRAM_CLEARED_def
  AMDGPU_GEM_CREATE_VM_ALWAYS_VALID_def
  AMDGPU_VM_PAGE_READABLE_def AMDGPU_VM_PAGE_WRITEABLE_def AMDGPU_VM_PAGE_EXECUTABLE_def
  AMDGPU_VM_MTYPE_UC_def AMDGPU_VM_PAGE_NOALLOC_def
  AMDGPU_VA_OP_MAP_def AMDGPU_VA_OP_UNMAP_def

lemma da_append_fault:
  "da_append mem p v = Inl e \<Longrightarrow> e = FATAL ''realloc failed for packet array''"
  by (auto simp: da_append_def and_then_def HDB_ASSERT_def Let_def split: if_splits sum.splits)

lemma da_appends_fault:
  "da_appends mem vs p = Inl e \<Longrightarrow> e = FATAL ''realloc failed for packet array''"
proof (induction vs arbitrary: p)
  case Nil
  then show ?case by simp
next
  case (Cons v vs)
  then show ?case
    by (auto simp: and_then_def split: sum.splits dest: da_append_fault)
qed

lemma da_append_granted: "\<exists>p'. da_append (\<lambda>n. True) p v = Inr p'"
  by (simp add: da_append_def and_then_def HDB_ASSERT_def Let_def)

lemma da_appends_granted: "\<exists>p'. da_appends (\<lambda>n. True) vs p = Inr p'"
proof (induction vs arbitrary: p)
  case Nil
  then show ?case by simp
next
  case (Cons v vs)
  obtain p1 where "da_append (\<lambda>n. True) p v = Inr p1"
    using da_append_granted by blast
  then show ?case using Cons.IH [of p1] by (simp add: and_then_def)
qed

lemma pgm_lo_outside_window:
  "pkt3_set_sh_reg mem p R_00B830_COMPUTE_PGM_LO x =
     Inl (FATAL ''register offset outside SH register range'')"
  by (simp add: pkt3_set_sh_reg_def HDB_ASSERT_def pm4_consts)

lemma wf_pkt3_init: "wf_packets pkt3_init"
  by (simp add: wf_packets_def pkt3_init_def)

lemma take_Suc_update:
  "n < length xs \<Longrightarrow> take (Suc n) (xs[n := v]) = take n xs @ [v]"
  by (simp add: take_Suc_conv_app_nth)

lemma da_append_words:
  assumes "wf_packets p"
  shows "\<exists>p'. da_append (\<lambda>n. True) p v = Inr p' \<and> words p' = words p @ [v] \<and> wf_packets p'"
proof (cases "count p \<ge> capacity p")
  case False
  with assms show ?thesis
    by (simp add: da_append_def and_then_def words_def wf_packets_def take_Suc_update)
next
  case True
  with assms have eq: "count p = length (data p)" "capacity p = length (data p)"
    by (simp_all add: wf_packets_def)
  define n where "n = (if capacity p = 0 then 64 else capacity p * 2)"
  have n: "length (data p) < n"
    by (simp add: n_def eq)
  have len: "length (realloc (data p) n) = n"
    by (simp add: realloc_def)
  have old: "take (length (data p)) (realloc (data p) n) = data p"
    using n by (simp add: realloc_def take_take min_def)
  have run: "da_append (\<lambda>n. True) p v =
      Inr (p\<lparr>data := (realloc (data p) n)[count p := v], capacity := n, count := count p + 1\<rparr>)"
    using True by (simp add: da_append_def and_then_def HDB_ASSERT_def Let_def n_def)
  show ?thesis
    unfolding run using n len old
    by (simp add: words_def wf_packets_def eq take_Suc_update)
qed

lemma da_appends_words:
  "wf_packets p \<Longrightarrow>
   \<exists>p'. da_appends (\<lambda>n. True) vs p = Inr p' \<and> words p' = words p @ vs \<and> wf_packets p'"
proof (induction vs arbitrary: p)
  case Nil
  then show ?case by simp
next
  case (Cons v vs)
  from da_append_words [OF Cons.prems, of v] obtain p1 where p1:
    "da_append (\<lambda>n. True) p v = Inr p1" "words p1 = words p @ [v]" "wf_packets p1"
    by blast
  from Cons.IH [OF p1(3)] p1 show ?case
    by (auto simp: and_then_def)
qed

text \<open>
  C1. The header built by \<open>PKT3\<close> does not decode back. At opcode \<open>0x76\<close>, count 1,
  predicate 0 the header is \<open>0xC0007601\<close>: bits [0:13] read \<open>0x3601\<close>, not 1, because
  the opcode lies over bits 8 to 13 of the count, and bit 31 reads 1, not 0, because the
  type tag \<open>3 << 30\<close> sets it. At opcode 0, count \<open>0x100\<close> bits [8:15] read 1, not 0.
\<close>

theorem pkt3_header_fields_overlap:
  "PKT3 0x76 1 0 = 0xC0007601 \<and>
   PKT3 0x76 1 0 AND 0x3FFF = 0x3601 \<and>
   drop_bit 31 (PKT3 0x76 1 0) AND 1 = 1 \<and>
   drop_bit 8 (PKT3 0 0x100 0) AND 0xFF = 1"
  by (simp add: PKT3_def)

text \<open>
  C2. On every stream that \<open>pkt3_init\<close> and \<open>da_append\<close> can produce, when each
  growth of the block is granted, \<open>pkt3_acquire_mem\<close> appends seven words and leaves
  the words before them as they were: the header built with count 5,
  \<open>PKT3(PKT3_ACQUIRE_MEM, 5, 0) = 0xC0005805\<close>, and six trailing dwords.
\<close>

theorem pkt3_acquire_mem_appends_seven_words:
  assumes "wf_packets packets"
  shows "\<exists>p'. pkt3_acquire_mem (\<lambda>n. True) packets = Inr p' \<and>
           words p' = words packets @ [0xC0005805, 0x1B, 0xFFFFFFFF, 0xFF, 0, 0, 0] \<and>
           wf_packets p'"
proof -
  have h: "PKT3 PKT3_ACQUIRE_MEM 5 0 = 0xC0005805"
    by (simp add: PKT3_def PKT3_ACQUIRE_MEM_def)
  have c: "(push_bit 0 1 OR push_bit 1 1 OR push_bit 3 1 OR push_bit 4 1 :: u32) = 0x1B"
    by simp
  show ?thesis
    using da_appends_words [OF assms, of "[0xC0005805, 0x1B, 0xFFFFFFFF, 0xFF, 0, 0, 0]"]
    unfolding pkt3_acquire_mem_def Let_def h c .
qed

text \<open>
  C2 on the empty stream: the stream then holds the seven words.
\<close>

theorem pkt3_acquire_mem_emits_seven_words:
  "wf_packets pkt3_init \<and>
   map_sum id words (pkt3_acquire_mem (\<lambda>n. True) pkt3_init) =
     Inr [0xC0005805, 0x1B, 0xFFFFFFFF, 0xFF, 0, 0, 0]"
  using pkt3_acquire_mem_appends_seven_words [OF wf_pkt3_init] wf_pkt3_init
  by (auto simp: words_def pkt3_init_def)

text \<open>
  C3. On every stream that \<open>pkt3_init\<close> and \<open>da_append\<close> can produce, when each
  growth of the block is granted, \<open>pkt3_release_mem\<close> appends eight words and leaves
  the words before them as they were: the header built with count 6,
  \<open>PKT3(PKT3_RELEASE_MEM, 6, 0) = 0xC0004906\<close>, and seven trailing dwords, of which the third and fourth are the low and the high 32 bits of the address
  and the fifth is the fence value.
\<close>

theorem pkt3_release_mem_appends_eight_words:
  assumes "wf_packets packets"
  shows "\<exists>p'. pkt3_release_mem (\<lambda>n. True) packets va fence_value = Inr p' \<and>
           words p' = words packets @
             [0xC0004906, 0x2E05, 1, ucast va, ucast (drop_bit 32 va), fence_value, 0, 0] \<and>
           wf_packets p'"
proof -
  have h: "PKT3 PKT3_RELEASE_MEM 6 0 = 0xC0004906"
    by (simp add: PKT3_def PKT3_RELEASE_MEM_def)
  have c: "(push_bit 0 0x5 OR push_bit 8 0x2E :: u32) = 0x2E05"
    by simp
  have m: "(0xFFFFFFFF :: u64) = mask 32"
    by (simp add: mask_eq_exp_minus_1)
  have lo: "(ucast (va AND 0xFFFFFFFF) :: u32) = ucast va"
    unfolding m by (rule bit_eqI) (auto simp: bit_simps)
  show ?thesis
    using da_appends_words [OF assms, of
        "[0xC0004906, 0x2E05, 1, ucast va, ucast (drop_bit 32 va), fence_value, 0, 0]"]
    unfolding pkt3_release_mem_def Let_def h c lo .
qed

text \<open>
  C3 on the empty stream, with address \<open>0x123456789ABCDEF0\<close> and fence value
  \<open>0x42\<close>: the stream then holds the eight words.
\<close>

theorem pkt3_release_mem_emits_eight_words:
  "wf_packets pkt3_init \<and>
   map_sum id words (pkt3_release_mem (\<lambda>n. True) pkt3_init 0x123456789ABCDEF0 0x42) =
     Inr [0xC0004906, 0x2E05, 1, 0x9ABCDEF0, 0x12345678, 0x42, 0, 0]"
  using pkt3_release_mem_appends_eight_words [OF wf_pkt3_init, of "0x123456789ABCDEF0" "0x42"]
    wf_pkt3_init
  by (auto simp: words_def pkt3_init_def)

text \<open>
  C4. \<open>pkt3_set_sh_reg\<close> aborts on the offset \<open>0xB848\<close>
  (\<open>R_00B848_COMPUTE_PGM_RSRC1\<close>), for every stream, allocator and value: the offset is
  not below \<open>SI_SH_REG_END = 0x3000\<close>.
\<close>

theorem pkt3_set_sh_reg_rejects_B848:
  "pkt3_set_sh_reg mem packets R_00B848_COMPUTE_PGM_RSRC1 v =
     Inl (FATAL ''register offset outside SH register range'')"
  by (simp add: pkt3_set_sh_reg_def HDB_ASSERT_def pm4_consts)

text \<open>
  C5. \<open>pkt3_set_sh_reg\<close> aborts on its range assertion exactly when the offset is
  outside \<open>[0x2C00, 0x3000)\<close>, whatever the stream, the allocator and the value; with
  an allocator that grants every request it returns normally exactly when the offset is
  inside. \<open>0x2BFF\<close> and \<open>0x3000\<close> abort, \<open>0x2C00\<close> and \<open>0x2FFF\<close> return.
\<close>

theorem pkt3_set_sh_reg_window:
  "((pkt3_set_sh_reg mem packets reg v =
       Inl (FATAL ''register offset outside SH register range''))
      = (reg < 0x2C00 \<or> 0x3000 \<le> reg)) \<and>
   ((\<exists>p'. pkt3_set_sh_reg (\<lambda>n. True) packets reg v = Inr p')
      = (0x2C00 \<le> reg \<and> reg < 0x3000)) \<and>
   pkt3_set_sh_reg mem packets 0x2BFF v =
     Inl (FATAL ''register offset outside SH register range'') \<and>
   pkt3_set_sh_reg mem packets 0x3000 v =
     Inl (FATAL ''register offset outside SH register range'') \<and>
   (\<exists>p'. pkt3_set_sh_reg (\<lambda>n. True) packets 0x2C00 v = Inr p') \<and>
   (\<exists>p'. pkt3_set_sh_reg (\<lambda>n. True) packets 0x2FFF v = Inr p')"
proof -
  have f: "(pkt3_set_sh_reg mem packets reg v =
       Inl (FATAL ''register offset outside SH register range''))
      = (reg < 0x2C00 \<or> 0x3000 \<le> reg)"
    by (auto simp del: da_appends.simps simp add: pkt3_set_sh_reg_def HDB_ASSERT_def pm4_consts
          dest!: da_appends_fault)
  have w: "(\<exists>p'. pkt3_set_sh_reg (\<lambda>n. True) packets r v = Inr p')
      = (0x2C00 \<le> r \<and> r < 0x3000)" for r
    using da_appends_granted
    by (auto simp del: da_appends.simps simp add: pkt3_set_sh_reg_def HDB_ASSERT_def pm4_consts)
  have lo: "pkt3_set_sh_reg mem packets 0x2BFF v =
      Inl (FATAL ''register offset outside SH register range'')"
    by (simp add: pkt3_set_sh_reg_def HDB_ASSERT_def pm4_consts)
  have hi: "pkt3_set_sh_reg mem packets 0x3000 v =
      Inl (FATAL ''register offset outside SH register range'')"
    by (simp add: pkt3_set_sh_reg_def HDB_ASSERT_def pm4_consts)
  have first: "\<exists>p'. pkt3_set_sh_reg (\<lambda>n. True) packets 0x2C00 v = Inr p'"
    by (simp add: w)
  have last: "\<exists>p'. pkt3_set_sh_reg (\<lambda>n. True) packets 0x2FFF v = Inr p'"
    by (simp add: w)
  from f w [of reg] lo hi first last show ?thesis
    by (intro conjI)
qed

text \<open>
  C6. \<open>build_compute_dispatch\<close> never returns normally, for any code address and any
  other argument: past the alignment assertion its first register write, to
  \<open>R_00B830_COMPUTE_PGM_LO = 0xB830\<close>, fails the range assertion of
  \<open>pkt3_set_sh_reg\<close>. At the aligned address \<open>0x100\<close>, from the empty stream and with
  an allocator that grants every request, that is the abort of the run.
\<close>

theorem build_compute_dispatch_never_succeeds:
  "(\<exists>e. build_compute_dispatch mem packets code_va rsrc1 rsrc2 rsrc3
          threads_x threads_y threads_z groups_x groups_y groups_z = Inl e) \<and>
   build_compute_dispatch (\<lambda>n. True) pkt3_init 0x100 0 0 0 64 1 1 1 1 1 =
     Inl (FATAL ''register offset outside SH register range'')"
proof
  show "\<exists>e. build_compute_dispatch mem packets code_va rsrc1 rsrc2 rsrc3
          threads_x threads_y threads_z groups_x groups_y groups_z = Inl e"
    by (simp add: build_compute_dispatch_def HDB_ASSERT_def and_then_def
          pgm_lo_outside_window Let_def split: sum.splits)
  obtain p1 where "pkt3_acquire_mem (\<lambda>n. True) pkt3_init = Inr p1"
    using da_appends_granted unfolding pkt3_acquire_mem_def Let_def by blast
  then show "build_compute_dispatch (\<lambda>n. True) pkt3_init 0x100 0 0 0 64 1 1 1 1 1 =
     Inl (FATAL ''register offset outside SH register range'')"
    by (simp add: build_compute_dispatch_def HDB_ASSERT_def and_then_def
          pgm_lo_outside_window Let_def)
qed

section \<open>Properties of the buffer objects\<close>

lemma and_not_mask_shift:
  fixes w :: "'a::len word"
  shows "w AND NOT (mask n) = push_bit n (drop_bit n w)"
  by (rule bit_eqI) (auto simp: bit_simps)

lemma ALIGN_UP_page_word: "ALIGN_UP sz PAGE_SIZE = push_bit 12 (drop_bit 12 (sz + 4095))"
proof -
  have m: "(4096 - 1 :: u64) = mask 12"
    by (simp add: mask_eq_exp_minus_1)
  have "sz + 4096 - 1 = sz + 4095"
    by simp
  then have "ALIGN_UP sz PAGE_SIZE = (sz + 4095) AND NOT (mask 12)"
    unfolding ALIGN_UP_def PAGE_SIZE_def m by (rule arg_cong)
  then show ?thesis by (simp only: and_not_mask_shift)
qed

lemma ALIGN_UP_page_unat:
  fixes sz :: u64
  assumes "unat sz \<le> 2 ^ 64 - 4096"
  shows "unat (ALIGN_UP sz PAGE_SIZE) = ((unat sz + 4095) div 4096) * 4096"
proof -
  have a: "unat (sz + 4095) = unat sz + 4095"
    using assms by (simp add: unat_word_ariths)
  have d: "unat (drop_bit 12 (sz + 4095)) = (unat sz + 4095) div 4096"
    by (simp add: unat_drop_bit_eq a drop_bit_eq_div unat_div)
  have lt: "unat (drop_bit 12 (sz + 4095)) * unat (4096 :: u64) < 2 ^ LENGTH(64)"
    using assms unfolding d by simp
  have "unat (drop_bit 12 (sz + 4095) * 4096) = unat (drop_bit 12 (sz + 4095)) * unat (4096 :: u64)"
    using lt by (simp only: unat_mult_lem [THEN iffD1])
  then show ?thesis
    by (simp add: ALIGN_UP_page_word push_bit_eq_mult d)
qed

lemma ALIGN_UP_page_ge:
  fixes sz :: u64
  assumes "unat sz \<le> 2 ^ 64 - 4096"
  shows "sz \<le> ALIGN_UP sz PAGE_SIZE"
  using ALIGN_UP_page_unat [OF assms] by (simp add: word_le_nat_alt)

lemma cpu_access_bit:
  "((AMDGPU_GEM_CREATE_CPU_ACCESS_REQUIRED OR AMDGPU_GEM_CREATE_VRAM_CLEARED OR
      AMDGPU_GEM_CREATE_VM_ALWAYS_VALID) OR x) AND AMDGPU_GEM_CREATE_CPU_ACCESS_REQUIRED \<noteq> 0"
  "AMDGPU_GEM_CREATE_NO_CPU_ACCESS AND AMDGPU_GEM_CREATE_CPU_ACCESS_REQUIRED = 0"
proof -
  have "bit (((AMDGPU_GEM_CREATE_CPU_ACCESS_REQUIRED OR AMDGPU_GEM_CREATE_VRAM_CLEARED OR
      AMDGPU_GEM_CREATE_VM_ALWAYS_VALID) OR x) AND AMDGPU_GEM_CREATE_CPU_ACCESS_REQUIRED) 0"
    by (simp add: drm_consts bit_simps)
  then show "((AMDGPU_GEM_CREATE_CPU_ACCESS_REQUIRED OR AMDGPU_GEM_CREATE_VRAM_CLEARED OR
      AMDGPU_GEM_CREATE_VM_ALWAYS_VALID) OR x) AND AMDGPU_GEM_CREATE_CPU_ACCESS_REQUIRED \<noteq> 0"
    by force
  show "AMDGPU_GEM_CREATE_NO_CPU_ACCESS AND AMDGPU_GEM_CREATE_CPU_ACCESS_REQUIRED = 0"
    by (simp add: drm_consts)
qed

lemma bo_alloc_normal:
  assumes "\<not> special_domain domain"
  shows "bo_alloc env sz domain uncached bo = (0, bo', calls) \<Longrightarrow>
         bo_size bo' = ALIGN_UP sz PAGE_SIZE"
  using assms
  by (auto simp: bo_alloc_def Let_def cpu_access_bit split: if_splits)

lemma bo_alloc_special:
  assumes "special_domain domain"
  shows "bo_alloc env sz domain uncached bo = (0, bo', calls) \<Longrightarrow>
         bo_size bo' = sz \<and> host_addr bo' = 0"
  using assms
  by (auto simp: bo_alloc_def Let_def cpu_access_bit split: if_splits)




text \<open>
  C7, as the code has it. Whenever \<open>bo_alloc\<close> returns 0: in a domain other than GWS,
  GDS and OA the region's size is \<open>ALIGN_UP(size, 4096)\<close> computed in 64-bit \<open>size_t\<close>,
  which for every requested size up to \<open>2 ^ 64 - 4096\<close> is the size rounded up to the
  next multiple of 4096 and is not below the requested size; in the domains GWS, GDS and
  OA the region's size is the requested size and its CPU pointer is \<open>NULL\<close>.
\<close>

theorem bo_alloc_size:
  assumes "bo_alloc env sz domain uncached bo = (0, bo', calls)"
  shows "(domain \<noteq> AMDGPU_GEM_DOMAIN_GWS \<and> domain \<noteq> AMDGPU_GEM_DOMAIN_GDS \<and>
          domain \<noteq> AMDGPU_GEM_DOMAIN_OA \<longrightarrow>
            bo_size bo' = ALIGN_UP sz PAGE_SIZE \<and>
            (unat sz \<le> 2 ^ 64 - 4096 \<longrightarrow>
               unat (bo_size bo') = ((unat sz + 4095) div 4096) * 4096 \<and> sz \<le> bo_size bo')) \<and>
         (domain = AMDGPU_GEM_DOMAIN_GWS \<or> domain = AMDGPU_GEM_DOMAIN_GDS \<or>
          domain = AMDGPU_GEM_DOMAIN_OA \<longrightarrow>
            bo_size bo' = sz \<and> host_addr bo' = 0)"
proof (cases "special_domain domain")
  case True
  then show ?thesis
    using bo_alloc_special [OF True assms] by (auto simp: special_domain_def)
next
  case False
  then show ?thesis
    using bo_alloc_normal [OF False assms] ALIGN_UP_page_unat [of sz] ALIGN_UP_page_ge [of sz]
    by (auto simp: special_domain_def)
qed

text \<open>
  C7 at concrete inputs: with a driver that grants every request, 5000 bytes in the GTT
  domain give a region of 8192 bytes, and 5000 bytes in the GDS domain give a region of
  5000 bytes without CPU pointer.
\<close>

theorem bo_alloc_size_witness:
  "bo_alloc drm_ok 5000 AMDGPU_GEM_DOMAIN_GTT False bo_zero =
     (0, fst (snd (bo_alloc drm_ok 5000 AMDGPU_GEM_DOMAIN_GTT False bo_zero)),
         snd (snd (bo_alloc drm_ok 5000 AMDGPU_GEM_DOMAIN_GTT False bo_zero))) \<and>
   bo_size (fst (snd (bo_alloc drm_ok 5000 AMDGPU_GEM_DOMAIN_GTT False bo_zero))) = 8192 \<and>
   bo_alloc drm_ok 5000 AMDGPU_GEM_DOMAIN_GDS False bo_zero =
     (0, fst (snd (bo_alloc drm_ok 5000 AMDGPU_GEM_DOMAIN_GDS False bo_zero)),
         snd (snd (bo_alloc drm_ok 5000 AMDGPU_GEM_DOMAIN_GDS False bo_zero))) \<and>
   bo_size (fst (snd (bo_alloc drm_ok 5000 AMDGPU_GEM_DOMAIN_GDS False bo_zero))) = 5000 \<and>
   host_addr (fst (snd (bo_alloc drm_ok 5000 AMDGPU_GEM_DOMAIN_GDS False bo_zero))) = 0"
proof -
  have n: "bo_alloc drm_ok 5000 AMDGPU_GEM_DOMAIN_GTT False bo_zero =
     (0, fst (snd (bo_alloc drm_ok 5000 AMDGPU_GEM_DOMAIN_GTT False bo_zero)),
         snd (snd (bo_alloc drm_ok 5000 AMDGPU_GEM_DOMAIN_GTT False bo_zero)))"
    by code_simp
  have s: "bo_alloc drm_ok 5000 AMDGPU_GEM_DOMAIN_GDS False bo_zero =
     (0, fst (snd (bo_alloc drm_ok 5000 AMDGPU_GEM_DOMAIN_GDS False bo_zero)),
         snd (snd (bo_alloc drm_ok 5000 AMDGPU_GEM_DOMAIN_GDS False bo_zero)))"
    by code_simp
  show ?thesis
    using bo_alloc_size [OF n] bo_alloc_size [OF s] n s
    by (simp add: drm_consts ALIGN_UP_def PAGE_SIZE_def)
qed

text \<open>
  C7 as stated fails at the requested size \<open>2 ^ 64 - 1\<close> in the GTT domain: the sum
  \<open>size + 4095\<close> wraps, the allocation succeeds with a driver that grants every request,
  and the region's size is 0, below the requested size.
\<close>

theorem bo_alloc_size_wraps:
  "fst (bo_alloc drm_ok 0xFFFFFFFFFFFFFFFF AMDGPU_GEM_DOMAIN_GTT False bo_zero) = 0 \<and>
   bo_size (fst (snd (bo_alloc drm_ok 0xFFFFFFFFFFFFFFFF AMDGPU_GEM_DOMAIN_GTT False bo_zero))) = 0 \<and>
   bo_size (fst (snd (bo_alloc drm_ok 0xFFFFFFFFFFFFFFFF AMDGPU_GEM_DOMAIN_GTT False bo_zero)))
     < 0xFFFFFFFFFFFFFFFF"
  by code_simp



text \<open>
  C9, as the code has it. For every region whose allocation handle is not \<open>NULL\<close>,
  \<open>bo_free\<close> leaves the allocation handle, the VA-range handle and the CPU pointer
  \<open>NULL\<close>, and leaves the kernel-space handle, the virtual address and the size as they
  were; a second \<open>bo_free\<close> on the result makes no call and changes no field, whatever
  the driver would answer.
\<close>

theorem bo_free_clears:
  assumes "bo_handle bo \<noteq> 0" and "bo_free env bo = (bo', calls)"
  shows "bo_handle bo' = 0 \<and> va_handle bo' = 0 \<and> host_addr bo' = 0 \<and>
         kms_handle bo' = kms_handle bo \<and> va_addr bo' = va_addr bo \<and>
         bo_size bo' = bo_size bo \<and>
         bo_free env' bo' = (bo', [])"
  using assms by (auto simp: bo_free_def Let_def split: if_splits)

text \<open>
  C9 at a concrete input: the region allocated for 4096 bytes in the GTT domain is
  released with the four teardown calls in order, and releasing the result again does
  nothing.
\<close>

theorem bo_free_clears_witness:
  "bo_handle (fst (snd (bo_alloc drm_ok 4096 AMDGPU_GEM_DOMAIN_GTT False bo_zero))) \<noteq> 0 \<and>
   fst (bo_free drm_ok (fst (snd (bo_alloc drm_ok 4096 AMDGPU_GEM_DOMAIN_GTT False bo_zero)))) =
     \<lparr>bo_handle = 0, va_handle = 0, va_addr = 0x100000, host_addr = 0, bo_size = 4096,
      kms_handle = 7\<rparr> \<and>
   bo_free drm_ok
     \<lparr>bo_handle = 0, va_handle = 0, va_addr = 0x100000, host_addr = 0, bo_size = 4096,
      kms_handle = 7\<rparr> =
     (\<lparr>bo_handle = 0, va_handle = 0, va_addr = 0x100000, host_addr = 0, bo_size = 4096,
       kms_handle = 7\<rparr>, [])"
proof -
  have a: "fst (snd (bo_alloc drm_ok 4096 AMDGPU_GEM_DOMAIN_GTT False bo_zero)) =
     \<lparr>bo_handle = 0x5000, va_handle = 0x6000, va_addr = 0x100000,
      host_addr = 0x7F0000000000, bo_size = 4096, kms_handle = 7\<rparr>"
    by code_simp
  have h: "bo_handle (fst (snd (bo_alloc drm_ok 4096 AMDGPU_GEM_DOMAIN_GTT False bo_zero))) \<noteq> 0"
    by (simp add: a)
  have f: "bo_free drm_ok (fst (snd (bo_alloc drm_ok 4096 AMDGPU_GEM_DOMAIN_GTT False bo_zero))) =
     (\<lparr>bo_handle = 0, va_handle = 0, va_addr = 0x100000, host_addr = 0, bo_size = 4096,
       kms_handle = 7\<rparr>,
      [amdgpu_bo_cpu_unmap 0x5000,
       DRM_IOCTL_AMDGPU_GEM_VA
         \<lparr>gem_handle = 7, operation = 2, gem_flags = 0, va_address = 0x100000,
          offset_in_bo = 0, map_size = 4096\<rparr> 0,
       amdgpu_va_range_free 0x6000,
       amdgpu_bo_free 0x5000])"
    by code_simp
  show ?thesis
    using bo_free_clears [OF h f, of drm_ok] h f by simp
qed

text \<open>
  C9 as stated fails on the kernel-space handle: after the region allocated for 4096
  bytes in the GTT domain is released, its \<open>kms_handle\<close> is still 7.
\<close>

theorem bo_free_keeps_kms_handle:
  "kms_handle (fst (bo_free drm_ok
      (fst (snd (bo_alloc drm_ok 4096 AMDGPU_GEM_DOMAIN_GTT False bo_zero))))) = 7 \<and>
   kms_handle (fst (bo_free drm_ok
      (fst (snd (bo_alloc drm_ok 4096 AMDGPU_GEM_DOMAIN_GTT False bo_zero))))) \<noteq> 0"
  by code_simp

section \<open>Properties of the trap-handler installation\<close>



















end
